theory Spec2Isabelle
  imports Complex_Main
begin

text \<open>
  A shallow embedding of \<open>src/investment_alert.py\<close>: the notifier, the four fetchers,
  the scorer, the ticker loader and the run, each under the name it has in the script,
  followed by the properties the specification states about them.
\<close>

section \<open>Python values used by investment\_alert.py\<close>

text \<open>
  Exceptions are values. Every \<open>raise\<close> the script can meet is a constructor here;
  \<open>ExternalError\<close> stands for whatever a library call (network, file system, feed
  parser, messaging API) raises, with its message.
\<close>

datatype py_error =
    KeyError string
  | IndexError
  | ZeroDivisionError
  | AttributeError string
  | ExternalError string

subsection \<open>Strings\<close>

text \<open>
  A Python \<open>str\<close> is modelled as a \<open>string\<close> of bytes (UTF-8). \<open>str.strip\<close> and
  \<open>str.upper\<close> are modelled on ASCII: the whitespace characters are those below 128 for
  which \<open>str.isspace\<close> holds, and only the letters a to z change case.
\<close>

definition isspace :: "char \<Rightarrow> bool" where
  "isspace c =
     (c \<in> set [CHR 0x09, CHR 0x0A, CHR 0x0B, CHR 0x0C, CHR 0x0D,
                CHR 0x1C, CHR 0x1D, CHR 0x1E, CHR 0x1F, CHR 0x20])"

definition strip :: "string \<Rightarrow> string" where
  "strip s = rev (dropWhile isspace (rev (dropWhile isspace s)))"

definition upper_char :: "char \<Rightarrow> char" where
  "upper_char c =
     (if 97 \<le> (of_char c :: nat) \<and> (of_char c :: nat) \<le> 122
      then char_of ((of_char c :: nat) - 32) else c)"

definition upper :: "string \<Rightarrow> string" where
  "upper s = map upper_char s"

text \<open>\<open>s.split(sep)\<close> for a one-character separator: never empty, keeps empty fields.\<close>

fun str_split :: "char \<Rightarrow> string \<Rightarrow> string list" where
  "str_split sep [] = [[]]"
| "str_split sep (c # cs) =
     (if c = sep then [] # str_split sep cs
      else (case str_split sep cs of [] \<Rightarrow> [[c]] | w # ws \<Rightarrow> (c # w) # ws))"

text \<open>\<open>f.readlines()\<close> on the decoded text of a file: each line keeps its newline.\<close>

fun readlines :: "string \<Rightarrow> string list" where
  "readlines [] = []"
| "readlines (c # cs) =
     (if c = CHR 0x0A then [c] # readlines cs
      else (case readlines cs of [] \<Rightarrow> [[c]] | l # ls \<Rightarrow> (c # l) # ls))"

subsection \<open>Lists\<close>

text \<open>\<open>xs[i]\<close>: a negative index counts from the end, out of range raises.\<close>

definition py_index :: "'a list \<Rightarrow> int \<Rightarrow> py_error + 'a" where
  "py_index xs i =
     (if 0 \<le> i \<and> i < int (length xs) then Inr (xs ! nat i)
      else if i < 0 \<and> - int (length xs) \<le> i then Inr (xs ! nat (int (length xs) + i))
      else Inl IndexError)"

text \<open>\<open>xs[:n]\<close>: a negative bound drops that many elements from the end.\<close>

definition slice_to :: "'a list \<Rightarrow> int \<Rightarrow> 'a list" where
  "slice_to xs n = (if 0 \<le> n then take (nat n) xs else take (length xs - nat (- n)) xs)"

subsection \<open>Floats\<close>

text \<open>
  A Python float is a double: a finite value, an infinity or NaN. A finite double is
  given by its real value; the two zeros are not told apart. Arithmetic on doubles
  rounds and overflows, so it is not computed over the reals here: subtraction, division
  and multiplication are read from the environment (see \<open>env\<close> below). \<open>abs\<close> and
  the comparison with an integer are exact, and every comparison with NaN is false.
\<close>

datatype pyfloat = Finite real | PosInf | NegInf | NaN

fun float_abs :: "pyfloat \<Rightarrow> pyfloat" where
  "float_abs (Finite x) = Finite \<bar>x\<bar>"
| "float_abs PosInf = PosInf"
| "float_abs NegInf = PosInf"
| "float_abs NaN = NaN"

text \<open>\<open>x > n\<close> for a float \<open>x\<close> and an integer \<open>n\<close>.\<close>

fun float_gt_int :: "pyfloat \<Rightarrow> int \<Rightarrow> bool" where
  "float_gt_int (Finite x) n = (real_of_int n < x)"
| "float_gt_int PosInf n = True"
| "float_gt_int NegInf n = False"
| "float_gt_int NaN n = False"

subsection \<open>Dicts\<close>

text \<open>
  The price snapshot is a Python dict with the four keys written at line 41. A key may be
  missing (\<open>None\<close>), which is what \<open>stock_data.get("change_pct", 0)\<close> and
  \<open>stock_data['today_close']\<close> distinguish.
\<close>

record stock_dict =
  ticker :: "string option"
  today_close :: "pyfloat option"
  yesterday_close :: "pyfloat option"
  change_pct :: "pyfloat option"

text \<open>Truthiness of a dict: it is false exactly when the dict has no key.\<close>

definition dict_truthy :: "stock_dict \<Rightarrow> bool" where
  "dict_truthy d =
     (ticker d \<noteq> None \<or> today_close d \<noteq> None \<or> yesterday_close d \<noteq> None \<or> change_pct d \<noteq> None)"

text \<open>\<open>stock_data.get("change_pct", 0)\<close>\<close>

definition get_change_pct :: "stock_dict \<Rightarrow> pyfloat" where
  "get_change_pct d = (case change_pct d of None \<Rightarrow> Finite 0 | Some c \<Rightarrow> c)"

text \<open>\<open>d[key]\<close> on an optional field: a missing key raises.\<close>

definition getitem :: "string \<Rightarrow> 'a option \<Rightarrow> py_error + 'a" where
  "getitem key field = (case field of None \<Rightarrow> Inl (KeyError key) | Some v \<Rightarrow> Inr v)"

text \<open>
  The filing, trade and news records are dict literals whose values are all strings:
  association lists in the order the literal is written.
\<close>

type_synonym str_dict = "(string \<times> string) list"

subsection \<open>The parsed HTML document\<close>

text \<open>
  What \<open>BeautifulSoup(r.text, "html.parser")\<close> returns: a tree of tags and strings.
  \<open>find_all\<close> searches all descendants in document order, \<open>.text\<close> concatenates the
  strings below a node, \<open>find\<close> is the first result of \<open>find_all\<close>, and \<open>tag[key]\<close>
  reads the attribute dict.
\<close>

datatype node = NavigableString string | Tag string "(string \<times> string) list" "node list"

fun descendants :: "node \<Rightarrow> node list" where
  "descendants (NavigableString s) = []"
| "descendants (Tag n a cs) = concat (map (\<lambda>c. c # descendants c) cs)"

fun get_text :: "node \<Rightarrow> string" where
  "get_text (NavigableString s) = s"
| "get_text (Tag n a cs) = concat (map get_text cs)"

fun is_tag :: "string \<Rightarrow> node \<Rightarrow> bool" where
  "is_tag n (NavigableString s) = False"
| "is_tag n (Tag m a cs) = (m = n)"

fun tag_attrs :: "node \<Rightarrow> (string \<times> string) list" where
  "tag_attrs (NavigableString s) = []"
| "tag_attrs (Tag n a cs) = a"

definition find_all :: "string \<Rightarrow> node \<Rightarrow> node list" where
  "find_all n x = filter (is_tag n) (descendants x)"

definition find_py :: "string \<Rightarrow> node \<Rightarrow> node option" where
  "find_py n x = (case find_all n x of [] \<Rightarrow> None | y # ys \<Rightarrow> Some y)"

definition tag_getitem :: "node \<Rightarrow> string \<Rightarrow> py_error + string" where
  "tag_getitem x key = getitem key (map_of (tag_attrs x) key)"

subsection \<open>Feed entries\<close>

text \<open>
  An entry of \<open>feedparser.parse(...).entries\<close>: attribute access raises
  \<open>AttributeError\<close> on a missing key.
\<close>

record feed_entry =
  entry_title :: "string option"
  entry_link :: "string option"
  entry_published :: "string option"

definition getattr :: "string \<Rightarrow> 'a option \<Rightarrow> py_error + 'a" where
  "getattr attr field = (case field of None \<Rightarrow> Inl (AttributeError attr) | Some v \<Rightarrow> Inr v)"

definition getattr_default :: "'a option \<Rightarrow> 'a \<Rightarrow> 'a" where
  "getattr_default field dflt = (case field of None \<Rightarrow> dflt | Some v \<Rightarrow> v)"

section \<open>The world outside the script\<close>

text \<open>
  Effects are explicit. The script prints to the console and calls the messaging API;
  both are recorded in the \<open>world\<close>, in order. \<open>console\<close> holds one entry per
  \<open>print\<close> call (its arguments), \<open>outbox\<close> one entry per \<open>bot.send_message\<close> call
  (chat id and text), whether the call succeeded or not.
\<close>

datatype pyarg = Str string | Exc py_error

record world =
  console :: "pyarg list list"
  outbox :: "(string \<times> string) list"

text \<open>
  What the script reads from outside: the process environment, the file system, the three
  network sources, the outcome of each messaging call (by the number of calls made
  before it), and Python's own rendering of numbers in f-strings.

  Two more things are the environment's and not the script's. \<open>series_getitem\<close> is
  \<open>hist['Close'][i]\<close>: the installed pandas decides whether an integer key on a
  date-indexed series reads by position or raises, and the script pins no version.
  \<open>float_sub\<close>, \<open>float_truediv\<close> and \<open>float_mul\<close> are the interpreter's
  \<open>-\<close>, \<open>/\<close> (for a divisor that is not zero) and \<open>*\<close> on doubles, with their
  rounding, overflow and NaN.
\<close>

record env =
  environ :: "string \<Rightarrow> string option"
  open_read :: "string \<Rightarrow> py_error + string"
  yf_history_close :: "string \<Rightarrow> py_error + pyfloat list"
  series_getitem :: "pyfloat list \<Rightarrow> int \<Rightarrow> py_error + pyfloat"
  float_sub :: "pyfloat \<Rightarrow> pyfloat \<Rightarrow> pyfloat"
  float_truediv :: "pyfloat \<Rightarrow> pyfloat \<Rightarrow> pyfloat"
  float_mul :: "pyfloat \<Rightarrow> pyfloat \<Rightarrow> pyfloat"
  edgar_getcurrent :: "string \<Rightarrow> int \<Rightarrow> py_error + node"
  feedparser_entries :: "string \<Rightarrow> py_error + feed_entry list"
  send_outcome :: "nat \<Rightarrow> py_error option"
  str_int :: "int \<Rightarrow> string"
  str_float :: "pyfloat \<Rightarrow> string"
  format_2f :: "pyfloat \<Rightarrow> string"

text \<open>
  A statement or call of the script: it runs in a world, returns a value or raises, and
  leaves a world behind.
\<close>

type_synonym 'a py = "world \<Rightarrow> (py_error + 'a) \<times> world"

definition return_py :: "'a \<Rightarrow> 'a py" where
  "return_py v = (\<lambda>w. (Inr v, w))"

definition lift_py :: "py_error + 'a \<Rightarrow> 'a py" where
  "lift_py r = (\<lambda>w. (r, w))"

definition bind_py :: "'a py \<Rightarrow> ('a \<Rightarrow> 'b py) \<Rightarrow> 'b py" where
  "bind_py m f = (\<lambda>w. case m w of (Inl err, w') \<Rightarrow> (Inl err, w') | (Inr v, w') \<Rightarrow> f v w')"

text \<open>\<open>try: body except Exception as e: handler\<close>\<close>

definition try_except :: "'a py \<Rightarrow> (py_error \<Rightarrow> 'a py) \<Rightarrow> 'a py" where
  "try_except body handler =
     (\<lambda>w. case body w of (Inl err, w') \<Rightarrow> handler err w' | (Inr v, w') \<Rightarrow> (Inr v, w'))"

definition print_py :: "pyarg list \<Rightarrow> unit py" where
  "print_py args = (\<lambda>w. (Inr (), w\<lparr>console := console w @ [args]\<rparr>))"

section \<open>Configuration (lines 10--19)\<close>

definition TELEGRAM_TOKEN :: "env \<Rightarrow> string option" where
  "TELEGRAM_TOKEN e = environ e ''TELEGRAM_TOKEN''"

definition TELEGRAM_CHAT_IDS :: "env \<Rightarrow> string" where
  "TELEGRAM_CHAT_IDS e = (case environ e ''TELEGRAM_CHAT_IDS'' of None \<Rightarrow> [] | Some v \<Rightarrow> v)"

definition LANG :: "env \<Rightarrow> string" where
  "LANG e = (case environ e ''APP_LANG'' of None \<Rightarrow> ''en'' | Some v \<Rightarrow> v)"

definition CHAT_IDS :: "env \<Rightarrow> string list" where
  "CHAT_IDS e = [strip c. c \<leftarrow> str_split (CHR '','') (TELEGRAM_CHAT_IDS e), strip c \<noteq> []]"

text \<open>
  \<open>bot\<close> is \<open>None\<close> unless the token is set and not empty and there is a chat id; then it
  is the \<open>Bot\<close> built from the token.
\<close>

datatype Bot = Bot string

definition bot :: "env \<Rightarrow> Bot option" where
  "bot e =
     (case TELEGRAM_TOKEN e of
        None \<Rightarrow> None
      | Some tok \<Rightarrow> if tok \<noteq> [] \<and> CHAT_IDS e \<noteq> [] then Some (Bot tok) else None)"

section \<open>Notifier (lines 21--29)\<close>

text \<open>
  \<open>bot.send_message(chat_id=cid, text=message)\<close>: the call is recorded, and raises when
  the environment says that this call fails.
\<close>

definition send_message :: "env \<Rightarrow> Bot \<Rightarrow> string \<Rightarrow> string \<Rightarrow> unit py" where
  "send_message e b chat_id text =
     (\<lambda>w. (case send_outcome e (length (outbox w)) of None \<Rightarrow> Inr () | Some err \<Rightarrow> Inl err,
           w\<lparr>outbox := outbox w @ [(chat_id, text)]\<rparr>))"

fun send_loop :: "env \<Rightarrow> Bot \<Rightarrow> string \<Rightarrow> string list \<Rightarrow> unit py" where
  "send_loop e b message [] = return_py ()"
| "send_loop e b message (cid # cids) =
     bind_py
       (try_except (send_message e b cid message)
          (\<lambda>err. print_py [Str ''Failed to send to'', Str cid, Exc err]))
       (\<lambda>_. send_loop e b message cids)"

definition send_telegram_message :: "env \<Rightarrow> string \<Rightarrow> unit py" where
  "send_telegram_message e message =
     (case bot e of
        None \<Rightarrow> print_py [Str ''Telegram not configured:'', Str message]
      | Some b \<Rightarrow> send_loop e b message (CHAT_IDS e))"

section \<open>Price fetcher (lines 32--44)\<close>

text \<open>\<open>x / y\<close> on floats: a zero divisor raises, whatever \<open>x\<close> is.\<close>

definition truediv :: "env \<Rightarrow> pyfloat \<Rightarrow> pyfloat \<Rightarrow> py_error + pyfloat" where
  "truediv e x y = (if y = Finite 0 then Inl ZeroDivisionError else Inr (float_truediv e x y))"

text \<open>
  \<open>hist\<close> is the list of closing prices, one per row of the history, so that
  \<open>len(hist)\<close> is its length. The body of the \<open>try\<close> is a function of its own,
  so that what the \<open>except\<close> catches can be stated.
\<close>

definition get_stock_price_body :: "env \<Rightarrow> string \<Rightarrow> stock_dict option py" where
  "get_stock_price_body e tkr =
     bind_py (lift_py (yf_history_close e tkr)) (\<lambda>hist.
       if length hist < 2 then return_py None
       else
         bind_py (lift_py (series_getitem e hist (- 1))) (\<lambda>today_close.
         bind_py (lift_py (series_getitem e hist (- 2))) (\<lambda>yesterday_close.
         bind_py (lift_py (truediv e (float_sub e today_close yesterday_close) yesterday_close))
           (\<lambda>q.
           let change_pct = float_mul e q (Finite 100)
           in return_py (Some \<lparr>ticker = Some (upper tkr), today_close = Some today_close,
                                yesterday_close = Some yesterday_close,
                                change_pct = Some change_pct\<rparr>)))))"

definition get_stock_price :: "env \<Rightarrow> string \<Rightarrow> stock_dict option py" where
  "get_stock_price e tkr =
     try_except (get_stock_price_body e tkr)
       (\<lambda>err. bind_py (print_py [Str ''get_stock_price error:'', Exc err]) (\<lambda>_. return_py None))"

section \<open>Filing lister and insider-trade lister (lines 47--65 and 81--99)\<close>

text \<open>
  The body of the \<open>for\<close> loop on one row: \<open>None\<close> is \<open>continue\<close>, \<open>Some\<close> is the dict
  appended. The first argument is the key of the name field, the only difference
  between the two loops.
\<close>

definition row_record :: "string \<Rightarrow> node \<Rightarrow> py_error + str_dict option" where
  "row_record name_key row =
     (let cols = find_all ''td'' row in
      if length cols < 5 then Inr None
      else
        case py_index cols 3 of Inl err \<Rightarrow> Inl err | Inr col3 \<Rightarrow>
        (let date_filed = strip (get_text col3) in
         case py_index cols 1 of Inl err \<Rightarrow> Inl err | Inr col1 \<Rightarrow>
         (let company_name = strip (get_text col1);
              link_tag = find_py ''a'' col1
          in case (case link_tag of
                     None \<Rightarrow> Inr []
                   | Some a \<Rightarrow>
                       (case tag_getitem a ''href'' of
                          Inl err \<Rightarrow> Inl err
                        | Inr href \<Rightarrow> Inr (''https://www.sec.gov'' @ href)))
             of Inl err \<Rightarrow> Inl err
              | Inr filing_link \<Rightarrow>
                  Inr (Some [(''date'', date_filed), (name_key, company_name),
                             (''link'', filing_link)]))))"

fun rows_loop :: "string \<Rightarrow> node list \<Rightarrow> str_dict list \<Rightarrow> py_error + str_dict list" where
  "rows_loop name_key [] acc = Inr acc"
| "rows_loop name_key (row # rows) acc =
     (case row_record name_key row of
        Inl err \<Rightarrow> Inl err
      | Inr None \<Rightarrow> rows_loop name_key rows acc
      | Inr (Some r) \<Rightarrow> rows_loop name_key rows (acc @ [r]))"

definition get_recent_13f_filings_body :: "env \<Rightarrow> int \<Rightarrow> str_dict list py" where
  "get_recent_13f_filings_body e count =
     bind_py (lift_py (edgar_getcurrent e ''13F-HR'' count)) (\<lambda>soup.
       lift_py (rows_loop ''company'' (drop 1 (find_all ''tr'' soup)) []))"

definition get_recent_13f_filings :: "env \<Rightarrow> int \<Rightarrow> str_dict list py" where
  "get_recent_13f_filings e count =
     try_except (get_recent_13f_filings_body e count)
       (\<lambda>err. bind_py (print_py [Str ''get_recent_13f_filings error:'', Exc err])
                 (\<lambda>_. return_py []))"

definition get_recent_politician_trades_body :: "env \<Rightarrow> int \<Rightarrow> str_dict list py" where
  "get_recent_politician_trades_body e count =
     bind_py (lift_py (edgar_getcurrent e ''form4'' count)) (\<lambda>soup.
       lift_py (rows_loop ''filer'' (drop 1 (find_all ''tr'' soup)) []))"

definition get_recent_politician_trades :: "env \<Rightarrow> int \<Rightarrow> str_dict list py" where
  "get_recent_politician_trades e count =
     try_except (get_recent_politician_trades_body e count)
       (\<lambda>err. bind_py (print_py [Str ''get_recent_politician_trades error:'', Exc err])
                 (\<lambda>_. return_py []))"

section \<open>News lister (lines 68--78)\<close>

fun news_loop :: "feed_entry list \<Rightarrow> str_dict list \<Rightarrow> py_error + str_dict list" where
  "news_loop [] news_items = Inr news_items"
| "news_loop (entry # entries) news_items =
     (case getattr ''title'' (entry_title entry) of
        Inl err \<Rightarrow> Inl err
      | Inr title \<Rightarrow>
          (case getattr ''link'' (entry_link entry) of
             Inl err \<Rightarrow> Inl err
           | Inr link \<Rightarrow>
               news_loop entries
                 (news_items @ [[(''title'', title), (''link'', link),
                                 (''published'', getattr_default (entry_published entry) [])]])))"

definition get_google_news_rss_body :: "env \<Rightarrow> string \<Rightarrow> int \<Rightarrow> str_dict list py" where
  "get_google_news_rss_body e query max_items =
     bind_py (lift_py (feedparser_entries e query)) (\<lambda>entries.
       lift_py (news_loop (slice_to entries max_items) []))"

definition get_google_news_rss :: "env \<Rightarrow> string \<Rightarrow> int \<Rightarrow> str_dict list py" where
  "get_google_news_rss e query max_items =
     try_except (get_google_news_rss_body e query max_items)
       (\<lambda>err. bind_py (print_py [Str ''get_google_news_rss error:'', Exc err])
                 (\<lambda>_. return_py []))"

section \<open>Scoring (lines 102--112)\<close>

text \<open>
  The four \<open>if\<close> statements update \<open>score\<close> in turn; each step is a \<open>let\<close>.
  The counts are Python integers, hence unbounded. \<open>stock_data\<close> is \<open>None\<close> or a
  dict, and is truthy when it is a dict with at least one key.
\<close>

definition score_opportunity :: "stock_dict option \<Rightarrow> int \<Rightarrow> int \<Rightarrow> int \<Rightarrow> int" where
  "score_opportunity stock_data filings_count news_count politician_trades_count =
     (let score = 0;
          score = (if (case stock_data of None \<Rightarrow> False
                       | Some d \<Rightarrow> dict_truthy d \<and> float_gt_int (float_abs (get_change_pct d)) 5)
                   then score + 3 else score);
          score = (if filings_count > 0 then score + filings_count * 2 else score);
          score = (if news_count > 0 then score + news_count else score);
          score = (if politician_trades_count > 0 then score + politician_trades_count * 2 else score)
      in score)"

section \<open>Ticker list (lines 115--122)\<close>

text \<open>\<open>limit\<close> is \<open>None\<close> or an integer; it is truthy when it is a non-zero integer.\<close>

definition load_tickers_body :: "env \<Rightarrow> string \<Rightarrow> int option \<Rightarrow> string list py" where
  "load_tickers_body e path limit =
     bind_py (lift_py (open_read e path)) (\<lambda>content.
       let lines = [upper (strip l). l \<leftarrow> readlines content, strip l \<noteq> []]
       in return_py (case limit of
                       None \<Rightarrow> lines
                     | Some n \<Rightarrow> if n \<noteq> 0 then slice_to lines n else lines))"

definition load_tickers :: "env \<Rightarrow> string \<Rightarrow> int option \<Rightarrow> string list py" where
  "load_tickers e path limit =
     try_except (load_tickers_body e path limit)
       (\<lambda>err. bind_py (print_py [Str ''load_tickers error:'', Exc err])
                 (\<lambda>_. return_py [''MSFT'', ''AAPL'', ''NVDA'']))"

section \<open>Run and notify (lines 125--151)\<close>

text \<open>The literals of the two message variants that are not ASCII, as UTF-8 bytes.\<close>

definition bell :: string where
  "bell = [CHR 0xF0, CHR 0x9F, CHR 0x94, CHR 0x94]"

definition he_opportunity :: string where
  "he_opportunity = '' '' @ [CHR 0xD7, CHR 0x94, CHR 0xD7, CHR 0x96, CHR 0xD7, CHR 0x93, CHR 0xD7,
     CHR 0x9E, CHR 0xD7, CHR 0xA0, CHR 0xD7, CHR 0x95, CHR 0xD7, CHR 0xAA] @ '': ''"

definition he_price :: string where
  "he_price = [CHR 0xD7, CHR 0x9E, CHR 0xD7, CHR 0x97, CHR 0xD7, CHR 0x99, CHR 0xD7, CHR 0xA8] @ '': ''"

definition he_change :: string where
  "he_change = '' | '' @ [CHR 0xD7, CHR 0xA9, CHR 0xD7, CHR 0x99, CHR 0xD7, CHR 0xA0, CHR 0xD7,
     CHR 0x95, CHR 0xD7, CHR 0x99] @ '': ''"

definition he_no_price :: string where
  "he_no_price = [CHR 0xD7, CHR 0x90, CHR 0xD7, CHR 0x99, CHR 0xD7, CHR 0x9F] @ '' ''
     @ [CHR 0xD7, CHR 0x9E, CHR 0xD7, CHR 0x99, CHR 0xD7, CHR 0x93, CHR 0xD7, CHR 0xA2] @ '' ''
     @ [CHR 0xD7, CHR 0x9E, CHR 0xD7, CHR 0x97, CHR 0xD7, CHR 0x99, CHR 0xD7, CHR 0xA8]"

definition he_news :: string where
  "he_news = '' | '' @ [CHR 0xD7, CHR 0x97, CHR 0xD7, CHR 0x93, CHR 0xD7, CHR 0xA9, CHR 0xD7,
     CHR 0x95, CHR 0xD7, CHR 0xAA] @ '': ''"

definition he_trades :: string where
  "he_trades = '' | '' @ [CHR 0xD7, CHR 0xA8, CHR 0xD7, CHR 0x9B, CHR 0xD7, CHR 0x99, CHR 0xD7,
     CHR 0xA9, CHR 0xD7, CHR 0x95, CHR 0xD7, CHR 0xAA] @ '' '' @ [CHR 0xD7, CHR 0xA4, CHR 0xD7,
     CHR 0x95, CHR 0xD7, CHR 0x9C, CHR 0xD7, CHR 0x99, CHR 0xD7, CHR 0x98, CHR 0xD7, CHR 0x99,
     CHR 0xD7, CHR 0xA7, CHR 0xD7, CHR 0x90, CHR 0xD7, CHR 0x99, CHR 0xD7, CHR 0x9D] @ '': ''"

definition he_score :: string where
  "he_score = [CHR 0xD7, CHR 0xA0, CHR 0xD7, CHR 0x99, CHR 0xD7, CHR 0xA7, CHR 0xD7, CHR 0x95,
     CHR 0xD7, CHR 0x93] @ '': ''"

text \<open>
  Lines 135--138 and 143--146, with the three literals of the variant as arguments. The
  price line reads \<open>stock_data['today_close']\<close> and \<open>stock_data['change_pct']\<close>, which
  raise on a missing key.
\<close>

definition price_line ::
  "env \<Rightarrow> string \<Rightarrow> string \<Rightarrow> string \<Rightarrow> stock_dict option \<Rightarrow> py_error + string" where
  "price_line e price_label change_label no_price stock_data =
     (case stock_data of
        None \<Rightarrow> Inr (no_price @ [CHR 0x0A])
      | Some d \<Rightarrow>
          if dict_truthy d then
            (case getitem ''today_close'' (today_close d) of
               Inl err \<Rightarrow> Inl err
             | Inr tc \<Rightarrow>
                 (case getitem ''change_pct'' (change_pct d) of
                    Inl err \<Rightarrow> Inl err
                  | Inr cp \<Rightarrow>
                      Inr (price_label @ str_float e tc @ change_label @ format_2f e cp
                           @ ''%'' @ [CHR 0x0A])))
          else Inr (no_price @ [CHR 0x0A]))"

definition build_message ::
  "env \<Rightarrow> string \<Rightarrow> stock_dict option \<Rightarrow> str_dict list \<Rightarrow> str_dict list \<Rightarrow> str_dict list \<Rightarrow> int
     \<Rightarrow> py_error + string" where
  "build_message e tkr stock_data filings news politician_trades score =
     (if LANG e = ''he'' then
        (let message = bell @ he_opportunity @ tkr @ [CHR 0x0A] in
         case price_line e he_price he_change he_no_price stock_data of
           Inl err \<Rightarrow> Inl err
         | Inr line \<Rightarrow>
             (let message = message @ line;
                  message = message @ ''13F: '' @ str_int e (int (length filings))
                    @ he_news @ str_int e (int (length news))
                    @ he_trades @ str_int e (int (length politician_trades)) @ [CHR 0x0A];
                  message = message @ he_score @ str_int e score
              in Inr message))
      else
        (let message = bell @ '' Opportunity: '' @ tkr @ [CHR 0x0A] in
         case price_line e ''Price: '' '' | Change: '' ''No price data'' stock_data of
           Inl err \<Rightarrow> Inl err
         | Inr line \<Rightarrow>
             (let message = message @ line;
                  message = message @ ''13F: '' @ str_int e (int (length filings))
                    @ '' | News: '' @ str_int e (int (length news))
                    @ '' | Politician trades: '' @ str_int e (int (length politician_trades))
                    @ [CHR 0x0A];
                  message = message @ ''Score: '' @ str_int e score
              in Inr message)))"

record run_result =
  result_ticker :: string
  result_score :: int

definition run_and_notify :: "env \<Rightarrow> string \<Rightarrow> run_result py" where
  "run_and_notify e tkr =
     bind_py (get_stock_price e tkr) (\<lambda>stock_data.
     bind_py (get_recent_13f_filings e 10) (\<lambda>filings.
     bind_py (get_google_news_rss e tkr 5) (\<lambda>news.
     bind_py (get_recent_politician_trades e 10) (\<lambda>politician_trades.
       let score = score_opportunity stock_data (int (length filings)) (int (length news))
                     (int (length politician_trades))
       in bind_py (lift_py (build_message e tkr stock_data filings news politician_trades score))
            (\<lambda>message.
          bind_py (send_telegram_message e message) (\<lambda>_.
            return_py \<lparr>result_ticker = tkr, result_score = score\<rparr>))))))"

section \<open>Specification-side definitions for the table parsers\<close>

text \<open>
  The rows the specification keeps, in its own words: all rows but the first, with at
  least 5 columns.
\<close>

definition spec_rows :: "node \<Rightarrow> node list" where
  "spec_rows soup = filter (\<lambda>row. 5 \<le> length (find_all ''td'' row)) (drop 1 (find_all ''tr'' soup))"

text \<open>The name cell of a row has no hyperlink, or its first hyperlink has an \<open>href\<close>.\<close>

definition spec_href_present :: "node \<Rightarrow> bool" where
  "spec_href_present row =
     (case find_py ''a'' (find_all ''td'' row ! 1) of
        None \<Rightarrow> True
      | Some a \<Rightarrow> map_of (tag_attrs a) ''href'' \<noteq> None)"

text \<open>The link of a row: the site origin before the hyperlink of the name cell, or empty.\<close>

definition spec_link :: "node \<Rightarrow> string" where
  "spec_link row =
     (case find_py ''a'' (find_all ''td'' row ! 1) of
        None \<Rightarrow> []
      | Some a \<Rightarrow>
          (case map_of (tag_attrs a) ''href'' of
             None \<Rightarrow> []
           | Some href \<Rightarrow> ''https://www.sec.gov'' @ href))"

definition spec_record :: "string \<Rightarrow> node \<Rightarrow> str_dict" where
  "spec_record name_key row =
     [(''date'', strip (get_text (find_all ''td'' row ! 3))),
      (name_key, strip (get_text (find_all ''td'' row ! 1))),
      (''link'', spec_link row)]"

section \<open>Specification-side definition for the notifier\<close>

text \<open>The log lines of a run of sends starting at call number \<open>k\<close>: one for each call
  that the environment fails.\<close>

definition failure_lines :: "env \<Rightarrow> nat \<Rightarrow> string list \<Rightarrow> pyarg list list" where
  "failure_lines e k cids =
     concat (map (\<lambda>(i, cid). case send_outcome e i of
                                None \<Rightarrow> []
                              | Some err \<Rightarrow> [[Str ''Failed to send to'', Str cid, Exc err]])
                 (enumerate k cids))"

section \<open>Concrete inputs\<close>

definition empty_world :: world where
  "empty_world = \<lparr>console = [], outbox = []\<rparr>"

text \<open>
  Double arithmetic on the operands met below. With the closes 3.0 and 4.0 the script
  computes 4.0 - 3.0 = 1.0 exactly, then 1.0 / 3.0 = 0.3333333333333333 and
  0.3333333333333333 * 100 = 33.33333333333333, both rounded; the two rounded doubles
  are written as fractions. Every other result met is exact.
\<close>

definition exactly :: "(real \<Rightarrow> real \<Rightarrow> real) \<Rightarrow> pyfloat \<Rightarrow> pyfloat \<Rightarrow> pyfloat" where
  "exactly f x y = (case (x, y) of (Finite a, Finite b) \<Rightarrow> Finite (f a b) | _ \<Rightarrow> NaN)"

definition third :: real where
  "third = 6004799503160661 / 18014398509481984"

definition hundred_thirds :: real where
  "hundred_thirds = 2345624805922133 / 70368744177664"

definition demo_truediv :: "pyfloat \<Rightarrow> pyfloat \<Rightarrow> pyfloat" where
  "demo_truediv x y =
     (if x = Finite 1 \<and> y = Finite 3 then Finite third else exactly (/) x y)"

definition demo_mul :: "pyfloat \<Rightarrow> pyfloat \<Rightarrow> pyfloat" where
  "demo_mul x y =
     (if x = Finite third \<and> y = Finite 100 then Finite hundred_thirds else exactly (*) x y)"

text \<open>
  No configuration, no ticker file, two closes (3.0 then 4.0) read by position, empty
  listings and an empty feed. Numbers are rendered by fixed placeholders.
\<close>

definition demo_env :: env where
  "demo_env =
     \<lparr>environ = (\<lambda>k. None),
      open_read = (\<lambda>p. Inl (ExternalError ''No such file or directory'')),
      yf_history_close = (\<lambda>t. Inr [Finite 3, Finite 4]),
      series_getitem = py_index,
      float_sub = exactly (-),
      float_truediv = demo_truediv,
      float_mul = demo_mul,
      edgar_getcurrent = (\<lambda>t c. Inr (Tag ''[document]'' [] [])),
      feedparser_entries = (\<lambda>q. Inr []),
      send_outcome = (\<lambda>k. None),
      str_int = (\<lambda>i. ''#''),
      str_float = (\<lambda>x. ''#.#''),
      format_2f = (\<lambda>x. ''#.##'')\<rparr>"

definition env_empty_file :: env where
  "env_empty_file = demo_env\<lparr>open_read := (\<lambda>p. Inr [])\<rparr>"

definition env_three_lines :: env where
  "env_three_lines =
     demo_env\<lparr>open_read := (\<lambda>p. Inr (''msft'' @ [CHR 0x0A] @ ''  '' @ [CHR 0x0A] @ '' aapl ''))\<rparr>"

definition env_one_close :: env where
  "env_one_close = demo_env\<lparr>yf_history_close := (\<lambda>t. Inr [Finite 3])\<rparr>"

text \<open>A token and three chat ids, one of them twice; the second call fails.\<close>

definition env_telegram :: env where
  "env_telegram =
     demo_env\<lparr>environ := (\<lambda>k. if k = ''TELEGRAM_TOKEN'' then Some ''123:abc''
                                else if k = ''TELEGRAM_CHAT_IDS'' then Some ''1, 2,1'' else None),
               send_outcome := (\<lambda>k. if k = 1 then Some (ExternalError ''Forbidden'') else None)\<rparr>"

text \<open>A token but only blank chat ids.\<close>

definition env_no_recipients :: env where
  "env_no_recipients =
     demo_env\<lparr>environ := (\<lambda>k. if k = ''TELEGRAM_TOKEN'' then Some ''123:abc''
                                else if k = ''TELEGRAM_CHAT_IDS'' then Some '' , '' else None)\<rparr>"

definition td :: "string \<Rightarrow> node" where
  "td s = Tag ''td'' [] [NavigableString s]"

definition row_header :: node where
  "row_header = Tag ''tr'' [] [td ''Form'', td ''Filer'', td ''CIK'', td ''Date'', td ''File'']"

definition row_linked :: node where
  "row_linked =
     Tag ''tr'' []
       [td ''13F-HR'',
        Tag ''td'' [] [Tag ''a'' [(''href'', ''/Archives/edgar/1.txt'')] [NavigableString ''ACME CAPITAL'']],
        td ''0001'', td ''2024-05-01'', td ''028-1'']"

text \<open>The name cell holds an anchor without \<open>href\<close>.\<close>

definition row_anchor_only :: node where
  "row_anchor_only =
     Tag ''tr'' []
       [td ''13F-HR'',
        Tag ''td'' [] [Tag ''a'' [(''name'', ''top'')] [NavigableString ''BETA FUND'']],
        td ''0002'', td ''2024-05-02'', td ''028-2'']"

text \<open>Three columns only, again with an anchor without \<open>href\<close>.\<close>

definition row_short :: node where
  "row_short =
     Tag ''tr'' []
       [td ''13F-HR'',
        Tag ''td'' [] [Tag ''a'' [(''name'', ''x'')] [NavigableString ''GAMMA'']],
        td ''0003'']"

text \<open>No hyperlink, and white space around the name and the date.\<close>

definition row_padded :: node where
  "row_padded =
     Tag ''tr'' []
       [td ''13F-HR'', td '' DELTA LLC '', td ''0004'', td ([CHR 0x0A] @ ''2024-05-03 ''), td ''028-4'']"

definition soup_anchor_only :: node where
  "soup_anchor_only =
     Tag ''[document]'' [] [Tag ''table'' [] [row_header, row_linked, row_anchor_only]]"

definition soup_padded :: node where
  "soup_padded =
     Tag ''[document]'' [] [Tag ''table'' [] [row_header, row_short, row_padded, row_linked]]"

definition env_anchor_only :: env where
  "env_anchor_only = demo_env\<lparr>edgar_getcurrent := (\<lambda>t c. Inr soup_anchor_only)\<rparr>"

definition env_padded :: env where
  "env_padded = demo_env\<lparr>edgar_getcurrent := (\<lambda>t c. Inr soup_padded)\<rparr>"

text \<open>
  Every source raises: the previous close is 0, the listings hold an anchor without
  \<open>href\<close>, and the feed entry has no title.
\<close>

definition env_all_raise :: env where
  "env_all_raise =
     demo_env\<lparr>yf_history_close := (\<lambda>t. Inr [Finite 0, Finite 5]),
               edgar_getcurrent := (\<lambda>t c. Inr soup_anchor_only),
               feedparser_entries :=
                 (\<lambda>q. Inr [\<lparr>entry_title = None, entry_link = Some ''https://example.org/a'',
                               entry_published = None\<rparr>])\<rparr>"

section \<open>Properties of the scorer\<close>

text \<open>Whether a change, when there is one, lies beyond the threshold of 5.\<close>

lemma price_term_cases:
  "(case stock_data of None \<Rightarrow> False
    | Some d \<Rightarrow> dict_truthy d \<and> float_gt_int (float_abs (get_change_pct d)) 5)
   = (case stock_data of None \<Rightarrow> False
      | Some d \<Rightarrow> (case change_pct d of None \<Rightarrow> False
                   | Some c \<Rightarrow> float_gt_int (float_abs c) 5))"
  by (auto simp: get_change_pct_def dict_truthy_def split: option.splits)

lemma score_opportunity_sum:
  "score_opportunity stock_data f n t =
     (if (case stock_data of None \<Rightarrow> False
          | Some d \<Rightarrow> (case change_pct d of None \<Rightarrow> False
                       | Some c \<Rightarrow> float_gt_int (float_abs c) 5)) then 3 else 0)
     + (if f > 0 then 2 * f else 0) + (if n > 0 then n else 0) + (if t > 0 then 2 * t else 0)"
  unfolding score_opportunity_def price_term_cases by (simp add: Let_def)

text \<open>
  C1. For stock data that is absent or carries a change\_pct, and non-negative counts,
  the score is 3 (when the data is present and the absolute change exceeds 5) plus twice
  the filings count plus the news count plus twice the trades count. An infinite change
  exceeds 5 and NaN does not. With counts 3, 0, 1 and no price data the score is 8;
  with a change of -7.5 and counts 0, 2, 0 it is 5.
\<close>

theorem score_opportunity_formula:
  assumes "0 \<le> filings_count" and "0 \<le> news_count" and "0 \<le> politician_trades_count"
  shows "score_opportunity None filings_count news_count politician_trades_count
           = 2 * filings_count + news_count + 2 * politician_trades_count
         \<and> score_opportunity (Some (d\<lparr>change_pct := Some (Finite c)\<rparr>))
               filings_count news_count politician_trades_count
           = 3 * (if \<bar>c\<bar> > 5 then 1 else 0)
             + 2 * filings_count + news_count + 2 * politician_trades_count
         \<and> score_opportunity (Some (d\<lparr>change_pct := Some PosInf\<rparr>))
               filings_count news_count politician_trades_count
           = 3 + 2 * filings_count + news_count + 2 * politician_trades_count
         \<and> score_opportunity (Some (d\<lparr>change_pct := Some NegInf\<rparr>))
               filings_count news_count politician_trades_count
           = 3 + 2 * filings_count + news_count + 2 * politician_trades_count
         \<and> score_opportunity (Some (d\<lparr>change_pct := Some NaN\<rparr>))
               filings_count news_count politician_trades_count
           = 2 * filings_count + news_count + 2 * politician_trades_count
         \<and> score_opportunity None 3 0 1 = 8
         \<and> score_opportunity
               (Some \<lparr>ticker = Some ''MSFT'', today_close = Some (Finite 92.5),
                      yesterday_close = Some (Finite 100),
                      change_pct = Some (Finite (- 7.5))\<rparr>) 0 2 0 = 5"
  using assms by (simp add: score_opportunity_sum)

theorem score_opportunity_formula_witness:
  "score_opportunity None 4 1 2 = 13
   \<and> score_opportunity
        (Some \<lparr>ticker = None, today_close = None, yesterday_close = None,
               change_pct = Some (Finite 6)\<rparr>)
        4 1 2 = 16"
  using score_opportunity_formula
          [where filings_count = 4 and news_count = 1 and politician_trades_count = 2 and c = 6
             and d = "\<lparr>ticker = None, today_close = None, yesterday_close = None,
                        change_pct = None\<rparr>"]
  by simp

text \<open>
  C8. The score never decreases when one count grows and the other arguments stay fixed,
  and a snapshot whose absolute change exceeds 5 never scores less than the same counts
  with an absolute change of at most 5, or with no price data. The same holds when the
  change beyond 5 is any double, an infinity included, against any other snapshot.
\<close>

theorem score_opportunity_monotone:
  "(f \<le> f' \<longrightarrow> score_opportunity stock_data f n t \<le> score_opportunity stock_data f' n t)
   \<and> (n \<le> n' \<longrightarrow> score_opportunity stock_data f n t \<le> score_opportunity stock_data f n' t)
   \<and> (t \<le> t' \<longrightarrow> score_opportunity stock_data f n t \<le> score_opportunity stock_data f n t')
   \<and> (5 < \<bar>c\<bar> \<and> \<bar>c'\<bar> \<le> 5 \<longrightarrow>
        score_opportunity (Some (d'\<lparr>change_pct := Some (Finite c')\<rparr>)) f n t
          \<le> score_opportunity (Some (d\<lparr>change_pct := Some (Finite c)\<rparr>)) f n t)
   \<and> (5 < \<bar>c\<bar> \<longrightarrow>
        score_opportunity None f n t
          \<le> score_opportunity (Some (d\<lparr>change_pct := Some (Finite c)\<rparr>)) f n t)
   \<and> (float_gt_int (float_abs x) 5 \<longrightarrow>
        score_opportunity other f n t
          \<le> score_opportunity (Some (d\<lparr>change_pct := Some x\<rparr>)) f n t)"
  by (simp add: score_opportunity_sum split: option.splits)

theorem score_opportunity_monotone_witness:
  "score_opportunity None 1 (- 2) 0 \<le> score_opportunity None 2 (- 2) 0
   \<and> score_opportunity None 1 (- 2) 0 \<le> score_opportunity None 1 3 0
   \<and> score_opportunity None 1 (- 2) 0 \<le> score_opportunity None 1 (- 2) 4
   \<and> score_opportunity
        (Some \<lparr>ticker = None, today_close = None, yesterday_close = None,
               change_pct = Some (Finite 5)\<rparr>)
        1 (- 2) 0
      \<le> score_opportunity
           (Some \<lparr>ticker = None, today_close = None, yesterday_close = None,
                  change_pct = Some (Finite (- 6))\<rparr>)
           1 (- 2) 0
   \<and> score_opportunity None 1 (- 2) 0
      \<le> score_opportunity
           (Some \<lparr>ticker = None, today_close = None, yesterday_close = None,
                  change_pct = Some (Finite (- 6))\<rparr>)
           1 (- 2) 0
   \<and> score_opportunity
        (Some \<lparr>ticker = None, today_close = None, yesterday_close = None,
               change_pct = Some NaN\<rparr>)
        1 (- 2) 0
      \<le> score_opportunity
           (Some \<lparr>ticker = None, today_close = None, yesterday_close = None,
                  change_pct = Some NegInf\<rparr>)
           1 (- 2) 0"
  using score_opportunity_monotone
          [where f = 1 and f' = 2 and n = "- 2" and n' = 3 and t = 0 and t' = 4
             and stock_data = None and c = "- 6" and c' = 5 and x = NegInf
             and other = "Some \<lparr>ticker = None, today_close = None, yesterday_close = None,
                                 change_pct = Some NaN\<rparr>"
             and d = "\<lparr>ticker = None, today_close = None, yesterday_close = None,
                        change_pct = None\<rparr>"
             and d' = "\<lparr>ticker = None, today_close = None, yesterday_close = None,
                         change_pct = None\<rparr>"]
  by simp

text \<open>
  C9. For every stock data and all integer counts, negative ones included, the score is
  a non-negative integer, and it has no upper bound.
\<close>

theorem score_opportunity_nonneg_unbounded:
  "0 \<le> score_opportunity stock_data f n t \<and> (\<exists>f'. B < score_opportunity stock_data f' n t)"
proof
  show "0 \<le> score_opportunity stock_data f n t"
    by (simp add: score_opportunity_sum)
  have "0 < \<bar>B\<bar> + 1" by arith
  then have "2 * (\<bar>B\<bar> + 1) \<le> score_opportunity stock_data (\<bar>B\<bar> + 1) n t"
    by (simp add: score_opportunity_sum)
  moreover have "B < 2 * (\<bar>B\<bar> + 1)" by arith
  ultimately have "B < score_opportunity stock_data (\<bar>B\<bar> + 1) n t" by arith
  then show "\<exists>f'. B < score_opportunity stock_data f' n t" ..
qed

section \<open>Running statements\<close>

lemma return_py_run: "return_py v w = (Inr v, w)"
  by (simp add: return_py_def)

lemma print_py_run: "print_py args w = (Inr (), w\<lparr>console := console w @ [args]\<rparr>)"
  by (simp add: print_py_def)

text \<open>A handler that prints and returns a default turns every outcome into a value.\<close>

lemma try_except_default:
  "try_except body (\<lambda>err. bind_py (print_py (args err)) (\<lambda>_. return_py dflt)) w =
     (case body w of
        (Inl err, w') \<Rightarrow> (Inr dflt, w'\<lparr>console := console w' @ [args err]\<rparr>)
      | (Inr v, w') \<Rightarrow> (Inr v, w'))"
  by (simp add: try_except_def bind_py_def print_py_def return_py_def split: prod.splits sum.splits)

section \<open>Properties of the notifier\<close>

lemma bot_None_iff:
  "bot e = None \<longleftrightarrow> (TELEGRAM_TOKEN e = None \<or> TELEGRAM_TOKEN e = Some [] \<or> CHAT_IDS e = [])"
  by (auto simp: bot_def split: option.splits)

text \<open>
  C5. When the token is unset or empty, or no chat id is configured, the bot is unset;
  then for every message the function makes no send call (the outbox is unchanged),
  prints the message to the console, and returns normally.
\<close>

theorem send_telegram_message_unconfigured:
  assumes "TELEGRAM_TOKEN e = None \<or> TELEGRAM_TOKEN e = Some [] \<or> CHAT_IDS e = []"
  shows "bot e = None
         \<and> send_telegram_message e message w =
             (Inr (), w\<lparr>console := console w @ [[Str ''Telegram not configured:'', Str message]]\<rparr>)
         \<and> outbox (snd (send_telegram_message e message w)) = outbox w"
proof -
  from assms have b: "bot e = None"
    by (simp add: bot_None_iff)
  then have "send_telegram_message e message w =
      (Inr (), w\<lparr>console := console w @ [[Str ''Telegram not configured:'', Str message]]\<rparr>)"
    by (simp add: send_telegram_message_def print_py_run)
  with b show ?thesis by simp
qed

lemma CHAT_IDS_env_no_recipients: "CHAT_IDS env_no_recipients = []"
  by (simp add: CHAT_IDS_def TELEGRAM_CHAT_IDS_def env_no_recipients_def demo_env_def
      strip_def isspace_def)

theorem send_telegram_message_unconfigured_witness:
  "bot env_no_recipients = None
   \<and> send_telegram_message env_no_recipients ''ping'' empty_world =
       (Inr (), \<lparr>console = [[Str ''Telegram not configured:'', Str ''ping'']], outbox = []\<rparr>)"
  using send_telegram_message_unconfigured
          [where e = env_no_recipients and message = "''ping''" and w = empty_world]
        CHAT_IDS_env_no_recipients
  by (simp add: empty_world_def)

lemma send_loop_run:
  "send_loop e b message cids w =
     (Inr (), w\<lparr>outbox := outbox w @ map (\<lambda>cid. (cid, message)) cids,
                 console := console w @ failure_lines e (length (outbox w)) cids\<rparr>)"
proof (induction cids arbitrary: w)
  case Nil
  show ?case by (simp add: return_py_run failure_lines_def)
next
  case (Cons cid cids)
  show ?case
  proof (cases "send_outcome e (length (outbox w))")
    case None
    then have step: "try_except (send_message e b cid message)
             (\<lambda>err. print_py [Str ''Failed to send to'', Str cid, Exc err]) w
           = (Inr (), w\<lparr>outbox := outbox w @ [(cid, message)]\<rparr>)"
      by (simp add: try_except_def send_message_def)
    show ?thesis
      by (simp add: bind_py_def step Cons.IH failure_lines_def None)
  next
    case (Some err)
    then have step: "try_except (send_message e b cid message)
             (\<lambda>err. print_py [Str ''Failed to send to'', Str cid, Exc err]) w
           = (Inr (), w\<lparr>outbox := outbox w @ [(cid, message)],
                          console := console w @ [[Str ''Failed to send to'', Str cid, Exc err]]\<rparr>)"
      by (simp add: try_except_def send_message_def print_py_run)
    show ?thesis
      by (simp add: bind_py_def step Cons.IH failure_lines_def Some)
  qed
qed

text \<open>
  C6. When the bot is set, the function makes one send call per configured chat id, in
  list order; each failed call is logged with its chat id and the later chat ids are
  still tried; the function returns normally whatever the calls do.
\<close>

theorem send_telegram_message_configured:
  assumes "bot e = Some b"
  shows "fst (send_telegram_message e message w) = Inr ()
         \<and> outbox (snd (send_telegram_message e message w)) =
             outbox w @ map (\<lambda>cid. (cid, message)) (CHAT_IDS e)
         \<and> console (snd (send_telegram_message e message w)) =
             console w @
             concat (map (\<lambda>(i, cid). case send_outcome e i of
                                        None \<Rightarrow> []
                                      | Some err \<Rightarrow> [[Str ''Failed to send to'', Str cid, Exc err]])
                         (enumerate (length (outbox w)) (CHAT_IDS e)))"
  using assms by (simp add: send_telegram_message_def send_loop_run failure_lines_def)

lemma CHAT_IDS_env_telegram: "CHAT_IDS env_telegram = [''1'', ''2'', ''1'']"
  by (simp add: CHAT_IDS_def TELEGRAM_CHAT_IDS_def env_telegram_def demo_env_def
      strip_def isspace_def)

lemma bot_env_telegram: "bot env_telegram = Some (Bot ''123:abc'')"
proof -
  have "TELEGRAM_TOKEN env_telegram = Some ''123:abc''"
    by (simp add: TELEGRAM_TOKEN_def env_telegram_def demo_env_def)
  then show ?thesis
    by (simp add: bot_def CHAT_IDS_env_telegram)
qed

theorem send_telegram_message_configured_witness:
  "bot env_telegram = Some (Bot ''123:abc'')
   \<and> fst (send_telegram_message env_telegram ''ping'' empty_world) = Inr ()
   \<and> outbox (snd (send_telegram_message env_telegram ''ping'' empty_world)) =
       [(''1'', ''ping''), (''2'', ''ping''), (''1'', ''ping'')]
   \<and> console (snd (send_telegram_message env_telegram ''ping'' empty_world)) =
       [[Str ''Failed to send to'', Str ''2'', Exc (ExternalError ''Forbidden'')]]"
proof -
  have so: "send_outcome env_telegram = (\<lambda>k. if k = 1 then Some (ExternalError ''Forbidden'') else None)"
    by (simp add: env_telegram_def demo_env_def)
  show ?thesis
    using send_telegram_message_configured
            [OF bot_env_telegram, where message = "''ping''" and w = empty_world]
    by (simp add: bot_env_telegram CHAT_IDS_env_telegram empty_world_def so)
qed

section \<open>Properties of the ticker list\<close>

lemma load_tickers_run:
  "load_tickers e path limit w =
     (case open_read e path of
        Inl err \<Rightarrow>
          (Inr [''MSFT'', ''AAPL'', ''NVDA''],
           w\<lparr>console := console w @ [[Str ''load_tickers error:'', Exc err]]\<rparr>)
      | Inr content \<Rightarrow>
          (Inr (let lines = [upper (strip l). l \<leftarrow> readlines content, strip l \<noteq> []]
                in case limit of None \<Rightarrow> lines
                   | Some n \<Rightarrow> if n \<noteq> 0 then slice_to lines n else lines), w))"
  unfolding load_tickers_def try_except_default
  by (simp add: load_tickers_body_def bind_py_def lift_py_def return_py_def Let_def
      split: sum.splits)

text \<open>
  C4, as the code has it. When the ticker file cannot be opened or read, the function
  logs the error and returns the list MSFT, AAPL, NVDA. When the file is empty it
  returns the empty list.
\<close>

theorem load_tickers_fallback:
  "(open_read e path = Inl err \<longrightarrow>
      load_tickers e path limit w =
        (Inr [''MSFT'', ''AAPL'', ''NVDA''],
         w\<lparr>console := console w @ [[Str ''load_tickers error:'', Exc err]]\<rparr>))
   \<and> (open_read e path = Inr [] \<longrightarrow> load_tickers e path limit w = (Inr [], w))"
proof (intro conjI impI)
  assume "open_read e path = Inl err"
  then show "load_tickers e path limit w =
      (Inr [''MSFT'', ''AAPL'', ''NVDA''],
       w\<lparr>console := console w @ [[Str ''load_tickers error:'', Exc err]]\<rparr>)"
    by (simp add: load_tickers_run)
next
  assume "open_read e path = Inr []"
  then show "load_tickers e path limit w = (Inr [], w)"
    by (simp add: load_tickers_run slice_to_def split: option.splits)
qed

theorem load_tickers_fallback_witness:
  "load_tickers demo_env ''tickers.txt'' None empty_world =
     (Inr [''MSFT'', ''AAPL'', ''NVDA''],
      \<lparr>console = [[Str ''load_tickers error:'', Exc (ExternalError ''No such file or directory'')]],
       outbox = []\<rparr>)
   \<and> load_tickers env_empty_file ''tickers.txt'' (Some 2) empty_world = (Inr [], empty_world)"
proof -
  have missing: "open_read demo_env ''tickers.txt'' = Inl (ExternalError ''No such file or directory'')"
    by (simp add: demo_env_def)
  have empty: "open_read env_empty_file ''tickers.txt'' = Inr []"
    by (simp add: env_empty_file_def demo_env_def)
  show ?thesis
    using load_tickers_fallback
            [where e = demo_env and path = "''tickers.txt''" and limit = None and w = empty_world
               and err = "ExternalError ''No such file or directory''"]
          load_tickers_fallback
            [where e = env_empty_file and path = "''tickers.txt''" and limit = "Some 2"
               and w = empty_world]
          missing empty
    by (simp add: empty_world_def)
qed

text \<open>
  Counterexample to C4 as the specification states it: on an empty file the file opens,
  no line is read, and the result is the empty list, not the default list.
\<close>

theorem load_tickers_empty_file_counterexample:
  "open_read env_empty_file ''tickers.txt'' = Inr []
   \<and> fst (load_tickers env_empty_file ''tickers.txt'' None empty_world) = Inr []
   \<and> fst (load_tickers env_empty_file ''tickers.txt'' None empty_world)
       \<noteq> Inr [''MSFT'', ''AAPL'', ''NVDA'']"
proof -
  have "open_read env_empty_file ''tickers.txt'' = Inr []"
    by (simp add: env_empty_file_def demo_env_def)
  then show ?thesis
    by (simp add: load_tickers_run)
qed

text \<open>
  C10. A limit of 0 is falsy, so the list is not truncated: the call behaves as with
  no limit, and on a readable file returns every non-blank line, stripped and in upper
  case.
\<close>

theorem load_tickers_limit_zero:
  "load_tickers e path (Some 0) = load_tickers e path None
   \<and> (open_read e path = Inr content \<longrightarrow>
        load_tickers e path (Some 0) w =
          (Inr [upper (strip l). l \<leftarrow> readlines content, strip l \<noteq> []], w))"
proof
  show "load_tickers e path (Some 0) = load_tickers e path None"
    by (rule ext) (simp add: load_tickers_run Let_def split: sum.splits)
  show "open_read e path = Inr content \<longrightarrow>
        load_tickers e path (Some 0) w =
          (Inr [upper (strip l). l \<leftarrow> readlines content, strip l \<noteq> []], w)"
    by (simp add: load_tickers_run)
qed

lemma three_lines_tickers:
  "[upper (strip l). l \<leftarrow> readlines (''msft'' @ [CHR 0x0A] @ ''  '' @ [CHR 0x0A] @ '' aapl ''),
      strip l \<noteq> []] = [''MSFT'', ''AAPL'']"
  by code_simp

theorem load_tickers_limit_zero_witness:
  "load_tickers env_three_lines ''tickers.txt'' (Some 0) empty_world =
     (Inr [''MSFT'', ''AAPL''], empty_world)"
proof -
  have opened: "open_read env_three_lines ''tickers.txt'' =
      Inr (''msft'' @ [CHR 0x0A] @ ''  '' @ [CHR 0x0A] @ '' aapl '')"
    by (simp add: env_three_lines_def demo_env_def)
  have "load_tickers env_three_lines ''tickers.txt'' (Some 0) empty_world =
      (Inr [upper (strip l).
              l \<leftarrow> readlines (''msft'' @ [CHR 0x0A] @ ''  '' @ [CHR 0x0A] @ '' aapl ''),
              strip l \<noteq> []], empty_world)"
    using load_tickers_limit_zero
            [where e = env_three_lines and path = "''tickers.txt''" and w = empty_world
               and content = "''msft'' @ [CHR 0x0A] @ ''  '' @ [CHR 0x0A] @ '' aapl ''"]
          opened
    by blast
  then show ?thesis
    unfolding three_lines_tickers .
qed

section \<open>Properties of the price fetcher\<close>

lemma get_stock_price_run:
  "get_stock_price e tkr w =
     (case yf_history_close e tkr of
        Inl err \<Rightarrow>
          (Inr None, w\<lparr>console := console w @ [[Str ''get_stock_price error:'', Exc err]]\<rparr>)
      | Inr hist \<Rightarrow>
          if length hist < 2 then (Inr None, w)
          else
            (case series_getitem e hist (- 1) of
               Inl err \<Rightarrow>
                 (Inr None,
                  w\<lparr>console := console w @ [[Str ''get_stock_price error:'', Exc err]]\<rparr>)
             | Inr a \<Rightarrow>
                 (case series_getitem e hist (- 2) of
                    Inl err \<Rightarrow>
                      (Inr None,
                       w\<lparr>console := console w @ [[Str ''get_stock_price error:'', Exc err]]\<rparr>)
                  | Inr b \<Rightarrow>
                      if b = Finite 0
                      then (Inr None,
                            w\<lparr>console := console w @
                                 [[Str ''get_stock_price error:'', Exc ZeroDivisionError]]\<rparr>)
                      else (Inr (Some \<lparr>ticker = Some (upper tkr), today_close = Some a,
                                       yesterday_close = Some b,
                                       change_pct =
                                         Some (float_mul e
                                                 (float_truediv e (float_sub e a b) b)
                                                 (Finite 100))\<rparr>), w))))"
  unfolding get_stock_price_def try_except_default
  by (simp add: get_stock_price_body_def bind_py_def lift_py_def return_py_def truediv_def
      split: sum.splits)

text \<open>A result within relative error \<open>u\<close> of the exact one is at most \<open>1 + u\<close> times it.\<close>

lemma rounded_size:
  fixes a b u :: real
  assumes "\<bar>b - a\<bar> \<le> u * \<bar>a\<bar>"
  shows "\<bar>b\<bar> \<le> (1 + u) * \<bar>a\<bar>"
proof -
  have "\<bar>b\<bar> \<le> \<bar>a\<bar> + \<bar>b - a\<bar>" by arith
  also have "\<dots> \<le> \<bar>a\<bar> + u * \<bar>a\<bar>" using assms by simp
  also have "\<dots> = (1 + u) * \<bar>a\<bar>" by (simp add: algebra_simps)
  finally show ?thesis .
qed

lemma abs_pct: "\<bar>a / y * 100\<bar> = \<bar>a\<bar> * (100 / \<bar>y\<bar>)" for a y :: real
  by (simp add: abs_mult abs_divide)

text \<open>
  Three roundings in a row, each within relative error \<open>u\<close>: the subtraction, the
  division by \<open>y\<close> and the multiplication by 100.
\<close>

lemma change_pct_tolerance:
  fixes t y s q c u :: real
  assumes y: "y \<noteq> 0" and u: "0 \<le> u"
    and sub: "\<bar>s - (t - y)\<bar> \<le> u * \<bar>t - y\<bar>"
    and dvd: "\<bar>q - s / y\<bar> \<le> u * \<bar>s / y\<bar>"
    and mul: "\<bar>c - q * 100\<bar> \<le> u * \<bar>q * 100\<bar>"
  shows "\<bar>c - (t - y) / y * 100\<bar> \<le> ((1 + u) ^ 3 - 1) * \<bar>(t - y) / y * 100\<bar>"
proof -
  define E where "E = (t - y) / y * 100"
  define E1 where "E1 = s / y * 100"
  define E2 where "E2 = q * 100"
  define k where "k = 100 / \<bar>y\<bar>"
  have k: "0 \<le> k" unfolding k_def by simp
  have "E1 - E = (s - (t - y)) * (100 / y)"
    unfolding E1_def E_def using y by (simp add: field_simps)
  then have "\<bar>E1 - E\<bar> = \<bar>s - (t - y)\<bar> * \<bar>100 / y\<bar>"
    by (simp only: abs_mult)
  also have "\<bar>100 / y\<bar> = k"
    unfolding k_def by simp
  finally have "\<bar>E1 - E\<bar> = \<bar>s - (t - y)\<bar> * k" .
  also have "\<dots> \<le> (u * \<bar>t - y\<bar>) * k"
    using sub k by (rule mult_right_mono)
  also have "\<dots> = u * \<bar>E\<bar>"
    unfolding E_def k_def abs_pct by (simp only: mult.assoc)
  finally have e1: "\<bar>E1 - E\<bar> \<le> u * \<bar>E\<bar>" .
  have "E2 - E1 = (q - s / y) * 100"
    unfolding E2_def E1_def by (simp add: algebra_simps)
  then have "\<bar>E2 - E1\<bar> = \<bar>q - s / y\<bar> * \<bar>100\<bar>"
    by (simp only: abs_mult)
  then have "\<bar>E2 - E1\<bar> = \<bar>q - s / y\<bar> * 100"
    by simp
  also have "\<dots> \<le> (u * \<bar>s / y\<bar>) * 100"
    using dvd by (rule mult_right_mono) simp
  also have "\<dots> = u * \<bar>E1\<bar>"
    unfolding E1_def by (simp only: abs_mult abs_numeral mult.assoc)
  finally have e2: "\<bar>E2 - E1\<bar> \<le> u * \<bar>E1\<bar>" .
  from mul have e3: "\<bar>c - E2\<bar> \<le> u * \<bar>E2\<bar>"
    unfolding E2_def .
  have s1: "\<bar>E1\<bar> \<le> (1 + u) * \<bar>E\<bar>"
    by (rule rounded_size [OF e1])
  have "\<bar>E2\<bar> \<le> (1 + u) * \<bar>E1\<bar>"
    by (rule rounded_size [OF e2])
  also have "\<dots> \<le> (1 + u) * ((1 + u) * \<bar>E\<bar>)"
    using s1 u by (intro mult_left_mono) simp_all
  finally have s2: "\<bar>E2\<bar> \<le> (1 + u) * ((1 + u) * \<bar>E\<bar>)" .
  have m1: "u * \<bar>E1\<bar> \<le> u * ((1 + u) * \<bar>E\<bar>)"
    using s1 u by (rule mult_left_mono)
  have m2: "u * \<bar>E2\<bar> \<le> u * ((1 + u) * ((1 + u) * \<bar>E\<bar>))"
    using s2 u by (rule mult_left_mono)
  have "\<bar>c - E\<bar> \<le> \<bar>c - E2\<bar> + \<bar>E2 - E1\<bar> + \<bar>E1 - E\<bar>" by arith
  also have "\<dots> \<le> u * \<bar>E2\<bar> + u * \<bar>E1\<bar> + u * \<bar>E\<bar>"
    using e1 e2 e3 by arith
  also have "\<dots> \<le> u * ((1 + u) * ((1 + u) * \<bar>E\<bar>)) + u * ((1 + u) * \<bar>E\<bar>) + u * \<bar>E\<bar>"
    using m1 m2 by arith
  also have "\<dots> = ((1 + u) ^ 3 - 1) * \<bar>E\<bar>"
    by (simp add: power3_eq_cube algebra_simps)
  finally show ?thesis
    unfolding E_def .
qed

lemma snapshot_tolerance:
  assumes "fst (get_stock_price e tkr w) = Inr (Some d)"
    and "today_close d = Some (Finite t)" and "yesterday_close d = Some (Finite y)"
    and "0 \<le> u"
    and "float_sub e (Finite t) (Finite y) = Finite s" and "\<bar>s - (t - y)\<bar> \<le> u * \<bar>t - y\<bar>"
    and "float_truediv e (Finite s) (Finite y) = Finite q" and "\<bar>q - s / y\<bar> \<le> u * \<bar>s / y\<bar>"
    and "float_mul e (Finite q) (Finite 100) = Finite c" and "\<bar>c - q * 100\<bar> \<le> u * \<bar>q * 100\<bar>"
  shows "change_pct d = Some (Finite c) \<and> y \<noteq> 0
         \<and> \<bar>c - (t - y) / y * 100\<bar> \<le> ((1 + u) ^ 3 - 1) * \<bar>(t - y) / y * 100\<bar>"
proof -
  from assms(1-3)
  have "change_pct d =
        Some (float_mul e (float_truediv e (float_sub e (Finite t) (Finite y)) (Finite y))
                (Finite 100))"
    and y: "y \<noteq> 0"
    by (auto simp: get_stock_price_run split: sum.splits if_splits)
  with assms(5,7,9) have "change_pct d = Some (Finite c)"
    by simp
  moreover
  have "\<bar>c - (t - y) / y * 100\<bar> \<le> ((1 + u) ^ 3 - 1) * \<bar>(t - y) / y * 100\<bar>"
    using y assms(4,6,8,10) by (rule change_pct_tolerance)
  ultimately show ?thesis
    using y by simp
qed

text \<open>
  C2. When a snapshot is returned, the history has at least two closes, today\_close and
  yesterday\_close are what \<open>hist['Close'][-1]\<close> and \<open>hist['Close'][-2]\<close> gave, the latter
  is not zero, and change\_pct is (today\_close - yesterday\_close) / yesterday\_close * 100
  as the interpreter computes it on doubles. When the three operations are finite and
  each rounds within a relative error \<open>u\<close>, change\_pct is within relative error
  \<open>(1 + u)\<^sup>3 - 1\<close> of the exact quotient. A snapshot is returned whenever both closes
  are read and the prior one is not zero. A history with fewer than two closes gives
  None.
\<close>

theorem get_stock_price_change_pct:
  "(fst (get_stock_price e tkr w) = Inr (Some d) \<longrightarrow>
      (\<exists>hist a b. yf_history_close e tkr = Inr hist \<and> 2 \<le> length hist
         \<and> series_getitem e hist (- 1) = Inr a \<and> series_getitem e hist (- 2) = Inr b
         \<and> b \<noteq> Finite 0
         \<and> today_close d = Some a \<and> yesterday_close d = Some b
         \<and> change_pct d =
             Some (float_mul e (float_truediv e (float_sub e a b) b) (Finite 100))))
   \<and> (fst (get_stock_price e tkr w) = Inr (Some d)
        \<and> today_close d = Some (Finite t) \<and> yesterday_close d = Some (Finite y)
        \<and> 0 \<le> u
        \<and> float_sub e (Finite t) (Finite y) = Finite s \<and> \<bar>s - (t - y)\<bar> \<le> u * \<bar>t - y\<bar>
        \<and> float_truediv e (Finite s) (Finite y) = Finite q \<and> \<bar>q - s / y\<bar> \<le> u * \<bar>s / y\<bar>
        \<and> float_mul e (Finite q) (Finite 100) = Finite c \<and> \<bar>c - q * 100\<bar> \<le> u * \<bar>q * 100\<bar>
      \<longrightarrow>
        change_pct d = Some (Finite c) \<and> y \<noteq> 0
        \<and> \<bar>c - (t - y) / y * 100\<bar> \<le> ((1 + u) ^ 3 - 1) * \<bar>(t - y) / y * 100\<bar>)
   \<and> (yf_history_close e tkr = Inr closes \<and> 2 \<le> length closes
        \<and> series_getitem e closes (- 1) = Inr today \<and> series_getitem e closes (- 2) = Inr prior
        \<and> prior \<noteq> Finite 0 \<longrightarrow>
        get_stock_price e tkr w =
          (Inr (Some \<lparr>ticker = Some (upper tkr), today_close = Some today,
                       yesterday_close = Some prior,
                       change_pct =
                         Some (float_mul e (float_truediv e (float_sub e today prior) prior)
                                 (Finite 100))\<rparr>), w))
   \<and> (yf_history_close e tkr = Inr closes \<and> length closes < 2 \<longrightarrow>
        get_stock_price e tkr w = (Inr None, w))"
  apply (intro conjI impI)
  subgoal by (auto simp: get_stock_price_run split: sum.splits if_splits)
  subgoal using snapshot_tolerance [where e = e and tkr = tkr and w = w and d = d and t = t
                  and y = y and u = u and s = s and q = q and c = c] by blast
  subgoal using snapshot_tolerance [where e = e and tkr = tkr and w = w and d = d and t = t
                  and y = y and u = u and s = s and q = q and c = c] by blast
  subgoal using snapshot_tolerance [where e = e and tkr = tkr and w = w and d = d and t = t
                  and y = y and u = u and s = s and q = q and c = c] by blast
  subgoal by (simp add: get_stock_price_run)
  subgoal by (simp add: get_stock_price_run)
  done

text \<open>
  The closes 3.0 and 4.0 in double arithmetic, with \<open>u\<close> the unit roundoff of a double:
  the change returned is 33.33333333333333, which is not 100/3 and lies within the
  tolerance. One close alone gives None.
\<close>

lemma demo_env_fields:
  "yf_history_close demo_env tkr = Inr [Finite 3, Finite 4]"
  "series_getitem demo_env = py_index"
  "float_sub demo_env = exactly (-)"
  "float_truediv demo_env = demo_truediv"
  "float_mul demo_env = demo_mul"
  by (simp_all add: demo_env_def)

lemma demo_arithmetic:
  "exactly (-) (Finite 4) (Finite 3) = Finite 1"
  "demo_truediv (Finite 1) (Finite 3) = Finite third"
  "demo_mul (Finite third) (Finite 100) = Finite hundred_thirds"
  by (simp_all add: exactly_def demo_truediv_def demo_mul_def)

theorem get_stock_price_change_pct_witness:
  "get_stock_price demo_env ''msft'' empty_world =
     (Inr (Some \<lparr>ticker = Some ''MSFT'', today_close = Some (Finite 4),
                  yesterday_close = Some (Finite 3),
                  change_pct = Some (Finite (2345624805922133 / 70368744177664))\<rparr>),
      empty_world)
   \<and> \<bar>2345624805922133 / 70368744177664 - (4 - 3) / 3 * 100\<bar>
        \<le> ((1 + 1 / 2 ^ 53) ^ 3 - 1) * \<bar>(4 - 3) / 3 * (100 :: real)\<bar>
   \<and> 2345624805922133 / 70368744177664 \<noteq> (4 - 3) / 3 * (100 :: real)
   \<and> get_stock_price env_one_close ''msft'' empty_world = (Inr None, empty_world)"
proof -
  have last2: "py_index [Finite 3, Finite 4] (- 1) = Inr (Finite 4)"
    "py_index [Finite 3, Finite 4] (- 2) = Inr (Finite 3)"
    by (simp_all add: py_index_def)
  have name: "upper ''msft'' = ''MSFT''"
    by code_simp
  have one: "yf_history_close env_one_close ''msft'' = Inr [Finite 3]"
    by (simp add: env_one_close_def demo_env_def)
  note run = get_stock_price_change_pct
               [where e = demo_env and tkr = "''msft''" and w = empty_world
                  and closes = "[Finite 3, Finite 4]" and today = "Finite 4" and prior = "Finite 3"
                  and t = 4 and y = 3 and s = 1 and q = third and c = hundred_thirds
                  and u = "1 / 2 ^ 53"
                  and d = "\<lparr>ticker = Some ''MSFT'', today_close = Some (Finite 4),
                             yesterday_close = Some (Finite 3),
                             change_pct = Some (Finite hundred_thirds)\<rparr>"]
  have rounds: "\<bar>third - 1 / 3\<bar> \<le> 1 / 2 ^ 53 * \<bar>1 / 3 :: real\<bar>"
    "\<bar>hundred_thirds - third * 100\<bar> \<le> 1 / 2 ^ 53 * \<bar>third * 100\<bar>"
    by (simp_all add: third_def hundred_thirds_def)
  from run have returned: "get_stock_price demo_env ''msft'' empty_world =
     (Inr (Some \<lparr>ticker = Some ''MSFT'', today_close = Some (Finite 4),
                  yesterday_close = Some (Finite 3),
                  change_pct = Some (Finite hundred_thirds)\<rparr>), empty_world)"
    by (simp add: demo_env_fields last2 demo_arithmetic name)
  with run rounds
  have "\<bar>hundred_thirds - (4 - 3) / 3 * 100\<bar>
          \<le> ((1 + 1 / 2 ^ 53) ^ 3 - 1) * \<bar>(4 - 3) / 3 * (100 :: real)\<bar>"
    by (simp add: demo_env_fields demo_arithmetic)
  moreover have "hundred_thirds \<noteq> (4 - 3) / 3 * (100 :: real)"
    by (simp add: hundred_thirds_def)
  moreover
  from get_stock_price_change_pct
         [where e = env_one_close and tkr = "''msft''" and w = empty_world
            and closes = "[Finite 3]"] one
  have "get_stock_price env_one_close ''msft'' empty_world = (Inr None, empty_world)"
    by simp
  ultimately show ?thesis
    using returned by (simp add: hundred_thirds_def)
qed

section \<open>Properties of the table parsers\<close>

lemma py_index_in_range: "i < length xs \<Longrightarrow> py_index xs (int i) = Inr (xs ! i)"
  by (simp add: py_index_def)

text \<open>One row: skipped, turned into a record, or stopped by the missing \<open>href\<close>.\<close>

lemma row_record_cases:
  "row_record name_key row =
     (if length (find_all ''td'' row) < 5 then Inr None
      else if spec_href_present row then Inr (Some (spec_record name_key row))
      else Inl (KeyError ''href''))"
proof (cases "length (find_all ''td'' row) < 5")
  case True
  then show ?thesis by (simp add: row_record_def)
next
  case False
  then have i3: "py_index (find_all ''td'' row) 3 = Inr (find_all ''td'' row ! 3)"
    and i1: "py_index (find_all ''td'' row) 1 = Inr (find_all ''td'' row ! 1)"
    using py_index_in_range [of 3 "find_all ''td'' row"]
      py_index_in_range [of 1 "find_all ''td'' row"] by simp_all
  from False show ?thesis
    by (simp add: row_record_def Let_def i3 i1 spec_href_present_def spec_record_def
        spec_link_def tag_getitem_def getitem_def split: option.splits)
qed

lemma rows_loop_run:
  "rows_loop name_key rows acc =
     (if list_all spec_href_present (filter (\<lambda>row. 5 \<le> length (find_all ''td'' row)) rows)
      then Inr (acc @ map (spec_record name_key)
                        (filter (\<lambda>row. 5 \<le> length (find_all ''td'' row)) rows))
      else Inl (KeyError ''href''))"
  by (induction rows arbitrary: acc) (simp_all add: row_record_cases not_less)

lemma listing_run:
  "try_except
     (bind_py (lift_py (edgar_getcurrent e form count)) (\<lambda>soup.
        lift_py (rows_loop name_key (drop 1 (find_all ''tr'' soup)) [])))
     (\<lambda>err. bind_py (print_py (args err)) (\<lambda>_. return_py [])) w =
   (case edgar_getcurrent e form count of
      Inl err \<Rightarrow> (Inr [], w\<lparr>console := console w @ [args err]\<rparr>)
    | Inr soup \<Rightarrow>
        if list_all spec_href_present (spec_rows soup)
        then (Inr (map (spec_record name_key) (spec_rows soup)), w)
        else (Inr [], w\<lparr>console := console w @ [args (KeyError ''href'')]\<rparr>))"
  unfolding try_except_default
  by (simp add: bind_py_def lift_py_def rows_loop_run spec_rows_def split: sum.splits)

lemma get_recent_13f_filings_run:
  "get_recent_13f_filings e count w =
     (case edgar_getcurrent e ''13F-HR'' count of
        Inl err \<Rightarrow>
          (Inr [], w\<lparr>console := console w @ [[Str ''get_recent_13f_filings error:'', Exc err]]\<rparr>)
      | Inr soup \<Rightarrow>
          if list_all spec_href_present (spec_rows soup)
          then (Inr (map (spec_record ''company'') (spec_rows soup)), w)
          else (Inr [], w\<lparr>console := console w @
                  [[Str ''get_recent_13f_filings error:'', Exc (KeyError ''href'')]]\<rparr>))"
  unfolding get_recent_13f_filings_def get_recent_13f_filings_body_def listing_run ..

lemma get_recent_politician_trades_run:
  "get_recent_politician_trades e count w =
     (case edgar_getcurrent e ''form4'' count of
        Inl err \<Rightarrow>
          (Inr [], w\<lparr>console := console w @
                  [[Str ''get_recent_politician_trades error:'', Exc err]]\<rparr>)
      | Inr soup \<Rightarrow>
          if list_all spec_href_present (spec_rows soup)
          then (Inr (map (spec_record ''filer'') (spec_rows soup)), w)
          else (Inr [], w\<lparr>console := console w @
                  [[Str ''get_recent_politician_trades error:'', Exc (KeyError ''href'')]]\<rparr>))"
  unfolding get_recent_politician_trades_def get_recent_politician_trades_body_def listing_run ..

text \<open>
  C3, as the code has it. Both parsers skip the first row. When, in every later row
  with at least 5 columns, the name cell has no hyperlink or its first hyperlink has
  an href, they return one record per such row, in order: the date is the stripped
  text of column 3, the name the stripped text of column 1, and the link the site
  origin followed by that href, or the empty string without a hyperlink. Rows with
  fewer than 5 columns are left out and raise nothing, whatever they contain.
\<close>

theorem table_parsers_records:
  "(edgar_getcurrent e ''13F-HR'' count = Inr soup
      \<and> list_all spec_href_present
           (filter (\<lambda>row. 5 \<le> length (find_all ''td'' row)) (drop 1 (find_all ''tr'' soup))) \<longrightarrow>
      get_recent_13f_filings e count w =
        (Inr (map (\<lambda>row. [(''date'', strip (get_text (find_all ''td'' row ! 3))),
                          (''company'', strip (get_text (find_all ''td'' row ! 1))),
                          (''link'', spec_link row)])
                  (filter (\<lambda>row. 5 \<le> length (find_all ''td'' row)) (drop 1 (find_all ''tr'' soup)))),
         w))
   \<and> (edgar_getcurrent e ''form4'' count = Inr soup
      \<and> list_all spec_href_present
           (filter (\<lambda>row. 5 \<le> length (find_all ''td'' row)) (drop 1 (find_all ''tr'' soup))) \<longrightarrow>
      get_recent_politician_trades e count w =
        (Inr (map (\<lambda>row. [(''date'', strip (get_text (find_all ''td'' row ! 3))),
                          (''filer'', strip (get_text (find_all ''td'' row ! 1))),
                          (''link'', spec_link row)])
                  (filter (\<lambda>row. 5 \<le> length (find_all ''td'' row)) (drop 1 (find_all ''tr'' soup)))),
         w))"
proof -
  have rec: "spec_record name_key =
      (\<lambda>row. [(''date'', strip (get_text (find_all ''td'' row ! 3))),
               (name_key, strip (get_text (find_all ''td'' row ! 1))),
               (''link'', spec_link row)])" for name_key
    by (rule ext) (simp add: spec_record_def)
  show ?thesis
    unfolding get_recent_13f_filings_run get_recent_politician_trades_run
    by (simp add: spec_rows_def rec)
qed

lemma soup_padded_rows: "spec_rows soup_padded = [row_padded, row_linked]"
  by code_simp

lemma padded_row_hrefs: "spec_href_present row_padded" "spec_href_present row_linked"
  by code_simp+

lemma padded_row_records:
  "spec_record name_key row_padded =
     [(''date'', ''2024-05-03''), (name_key, ''DELTA LLC''), (''link'', [])]"
  "spec_record name_key row_linked =
     [(''date'', ''2024-05-01''), (name_key, ''ACME CAPITAL''),
      (''link'', ''https://www.sec.gov/Archives/edgar/1.txt'')]"
proof -
  have "strip (get_text (find_all ''td'' row_padded ! 3)) = ''2024-05-03''"
    and "strip (get_text (find_all ''td'' row_padded ! 1)) = ''DELTA LLC''"
    and "spec_link row_padded = []"
    and "strip (get_text (find_all ''td'' row_linked ! 3)) = ''2024-05-01''"
    and "strip (get_text (find_all ''td'' row_linked ! 1)) = ''ACME CAPITAL''"
    and "spec_link row_linked = ''https://www.sec.gov/Archives/edgar/1.txt''"
    by code_simp+
  then show "spec_record name_key row_padded =
       [(''date'', ''2024-05-03''), (name_key, ''DELTA LLC''), (''link'', [])]"
    and "spec_record name_key row_linked =
       [(''date'', ''2024-05-01''), (name_key, ''ACME CAPITAL''),
        (''link'', ''https://www.sec.gov/Archives/edgar/1.txt'')]"
    unfolding spec_record_def by (simp_all only:)
qed

theorem table_parsers_records_witness:
  "get_recent_13f_filings env_padded 10 empty_world =
     (Inr [[(''date'', ''2024-05-03''), (''company'', ''DELTA LLC''), (''link'', [])],
           [(''date'', ''2024-05-01''), (''company'', ''ACME CAPITAL''),
            (''link'', ''https://www.sec.gov/Archives/edgar/1.txt'')]], empty_world)
   \<and> get_recent_politician_trades env_padded 10 empty_world =
     (Inr [[(''date'', ''2024-05-03''), (''filer'', ''DELTA LLC''), (''link'', [])],
           [(''date'', ''2024-05-01''), (''filer'', ''ACME CAPITAL''),
            (''link'', ''https://www.sec.gov/Archives/edgar/1.txt'')]], empty_world)"
proof -
  have page: "edgar_getcurrent env_padded form 10 = Inr soup_padded" for form
    by (simp add: env_padded_def demo_env_def)
  have hrefs: "list_all spec_href_present (spec_rows soup_padded)"
    by (simp add: soup_padded_rows padded_row_hrefs)
  note parsed = table_parsers_records
                  [where e = env_padded and count = 10 and soup = soup_padded and w = empty_world]
  from parsed page hrefs
  have "get_recent_13f_filings env_padded 10 empty_world =
          (Inr (map (spec_record ''company'') (spec_rows soup_padded)), empty_world)"
    and "get_recent_politician_trades env_padded 10 empty_world =
          (Inr (map (spec_record ''filer'') (spec_rows soup_padded)), empty_world)"
    unfolding spec_rows_def spec_record_def [abs_def] by blast+
  then show ?thesis
    by (simp add: soup_padded_rows padded_row_records)
qed

text \<open>
  Counterexample to C3 as the specification states it, on two tables. With an anchor
  without href in the name cell of one row, the rows after the header all have 5
  columns and yet no record is returned. With white space around a cell's text, the
  date returned is not the text of column 3.
\<close>

theorem table_parsers_counterexample:
  "drop 1 (find_all ''tr'' soup_anchor_only) = [row_linked, row_anchor_only]
   \<and> length (find_all ''td'' row_linked) = 5
   \<and> length (find_all ''td'' row_anchor_only) = 5
   \<and> get_recent_13f_filings env_anchor_only 10 empty_world =
       (Inr [], \<lparr>console = [[Str ''get_recent_13f_filings error:'', Exc (KeyError ''href'')]],
                 outbox = []\<rparr>)
   \<and> get_recent_politician_trades env_anchor_only 10 empty_world =
       (Inr [], \<lparr>console = [[Str ''get_recent_politician_trades error:'', Exc (KeyError ''href'')]],
                 outbox = []\<rparr>)
   \<and> drop 1 (find_all ''tr'' soup_padded) = [row_short, row_padded, row_linked]
   \<and> get_text (find_all ''td'' row_padded ! 3) = [CHR 0x0A] @ ''2024-05-03 ''
   \<and> fst (get_recent_13f_filings env_padded 10 empty_world) =
       Inr [[(''date'', ''2024-05-03''), (''company'', ''DELTA LLC''), (''link'', [])],
            [(''date'', ''2024-05-01''), (''company'', ''ACME CAPITAL''),
             (''link'', ''https://www.sec.gov/Archives/edgar/1.txt'')]]"
proof -
  have rows: "drop 1 (find_all ''tr'' soup_anchor_only) = [row_linked, row_anchor_only]"
    by code_simp
  have cols: "length (find_all ''td'' row_linked) = 5" "length (find_all ''td'' row_anchor_only) = 5"
    by code_simp+
  have page: "edgar_getcurrent env_anchor_only form 10 = Inr soup_anchor_only" for form
    by (simp add: env_anchor_only_def demo_env_def)
  have stopped: "\<not> list_all spec_href_present (spec_rows soup_anchor_only)"
    by code_simp
  have filings: "get_recent_13f_filings env_anchor_only 10 empty_world =
       (Inr [], \<lparr>console = [[Str ''get_recent_13f_filings error:'', Exc (KeyError ''href'')]],
                 outbox = []\<rparr>)"
    by (simp add: get_recent_13f_filings_run page stopped empty_world_def)
  have trades: "get_recent_politician_trades env_anchor_only 10 empty_world =
       (Inr [], \<lparr>console = [[Str ''get_recent_politician_trades error:'', Exc (KeyError ''href'')]],
                 outbox = []\<rparr>)"
    by (simp add: get_recent_politician_trades_run page stopped empty_world_def)
  have rows': "drop 1 (find_all ''tr'' soup_padded) = [row_short, row_padded, row_linked]"
    by code_simp
  have cell: "get_text (find_all ''td'' row_padded ! 3) = [CHR 0x0A] @ ''2024-05-03 ''"
    by code_simp
  have page': "edgar_getcurrent env_padded form 10 = Inr soup_padded" for form
    by (simp add: env_padded_def demo_env_def)
  have padded: "fst (get_recent_13f_filings env_padded 10 empty_world) =
       Inr [[(''date'', ''2024-05-03''), (''company'', ''DELTA LLC''), (''link'', [])],
            [(''date'', ''2024-05-01''), (''company'', ''ACME CAPITAL''),
             (''link'', ''https://www.sec.gov/Archives/edgar/1.txt'')]]"
    by (simp add: get_recent_13f_filings_run page' soup_padded_rows padded_row_hrefs
        padded_row_records)
  from rows cols filings trades rows' cell padded show ?thesis
    by (intro conjI)
qed

section \<open>Fail-soft fetchers and the run\<close>

lemma get_stock_price_returns: "\<exists>v w'. get_stock_price e tkr w = (Inr v, w')"
  unfolding get_stock_price_def try_except_default
  by (simp split: prod.splits sum.splits)

lemma get_recent_13f_filings_returns: "\<exists>v w'. get_recent_13f_filings e count w = (Inr v, w')"
  unfolding get_recent_13f_filings_def try_except_default
  by (simp split: prod.splits sum.splits)

lemma get_google_news_rss_returns: "\<exists>v w'. get_google_news_rss e query max_items w = (Inr v, w')"
  unfolding get_google_news_rss_def try_except_default
  by (simp split: prod.splits sum.splits)

lemma get_recent_politician_trades_returns:
  "\<exists>v w'. get_recent_politician_trades e count w = (Inr v, w')"
  unfolding get_recent_politician_trades_def try_except_default
  by (simp split: prod.splits sum.splits)

text \<open>The price fetcher returns None or a dict with all four keys.\<close>

lemma get_stock_price_shape:
  "\<exists>stock_data w'. get_stock_price e tkr w = (Inr stock_data, w')
     \<and> (case stock_data of None \<Rightarrow> True
         | Some d \<Rightarrow> today_close d \<noteq> None \<and> change_pct d \<noteq> None)"
  by (simp add: get_stock_price_run split: sum.splits)

lemma price_line_returns:
  "(case stock_data of None \<Rightarrow> True | Some d \<Rightarrow> today_close d \<noteq> None \<and> change_pct d \<noteq> None)
   \<Longrightarrow> \<exists>line. price_line e price_label change_label no_price stock_data = Inr line"
  by (auto simp: price_line_def getitem_def split: option.splits)

lemma build_message_returns:
  assumes "case stock_data of None \<Rightarrow> True
           | Some d \<Rightarrow> today_close d \<noteq> None \<and> change_pct d \<noteq> None"
  shows "\<exists>message. build_message e tkr stock_data filings news politician_trades score = Inr message"
proof -
  from price_line_returns [OF assms]
  obtain he en where "price_line e he_price he_change he_no_price stock_data = Inr he"
    and "price_line e ''Price: '' '' | Change: '' ''No price data'' stock_data = Inr en"
    by blast
  then show ?thesis
    by (simp add: build_message_def Let_def)
qed

lemma send_telegram_message_returns: "\<exists>w'. send_telegram_message e message w = (Inr (), w')"
  by (simp add: send_telegram_message_def print_py_run send_loop_run split: option.splits)

lemma run_and_notify_returns:
  "\<exists>sc w'. run_and_notify e tkr w = (Inr \<lparr>result_ticker = tkr, result_score = sc\<rparr>, w')"
proof -
  from get_stock_price_shape [of e tkr w]
  obtain stock_data w1 where price: "get_stock_price e tkr w = (Inr stock_data, w1)"
    and shape: "case stock_data of None \<Rightarrow> True
                | Some d \<Rightarrow> today_close d \<noteq> None \<and> change_pct d \<noteq> None"
    by blast
  obtain filings w2 where filed: "get_recent_13f_filings e 10 w1 = (Inr filings, w2)"
    using get_recent_13f_filings_returns by blast
  obtain news w3 where fed: "get_google_news_rss e tkr 5 w2 = (Inr news, w3)"
    using get_google_news_rss_returns by blast
  obtain trades w4 where traded: "get_recent_politician_trades e 10 w3 = (Inr trades, w4)"
    using get_recent_politician_trades_returns by blast
  from build_message_returns [OF shape]
  obtain message where built:
    "build_message e tkr stock_data filings news trades
       (score_opportunity stock_data (int (length filings)) (int (length news))
          (int (length trades))) = Inr message"
    by blast
  obtain w5 where sent: "send_telegram_message e message w4 = (Inr (), w5)"
    using send_telegram_message_returns by blast
  show ?thesis
    unfolding run_and_notify_def
    by (simp add: bind_py_def price filed fed traded built sent lift_py_def return_py_def Let_def)
qed

text \<open>
  C7. In each of the four fetchers, an exception raised in the body is caught: the
  function logs it and returns its default (None for the price, the empty list for the
  three listers). No fetcher ever raises, and run\_and\_notify always returns a record
  with the ticker and a score.
\<close>

theorem fetchers_fail_soft:
  "(get_stock_price_body e tkr w = (Inl err_price, w_price) \<longrightarrow>
      get_stock_price e tkr w =
        (Inr None,
         w_price\<lparr>console := console w_price @ [[Str ''get_stock_price error:'', Exc err_price]]\<rparr>))
   \<and> (get_recent_13f_filings_body e count w = (Inl err_filings, w_filings) \<longrightarrow>
      get_recent_13f_filings e count w =
        (Inr [], w_filings\<lparr>console := console w_filings @
                  [[Str ''get_recent_13f_filings error:'', Exc err_filings]]\<rparr>))
   \<and> (get_google_news_rss_body e query max_items w = (Inl err_news, w_news) \<longrightarrow>
      get_google_news_rss e query max_items w =
        (Inr [], w_news\<lparr>console := console w_news @
                  [[Str ''get_google_news_rss error:'', Exc err_news]]\<rparr>))
   \<and> (get_recent_politician_trades_body e count w = (Inl err_trades, w_trades) \<longrightarrow>
      get_recent_politician_trades e count w =
        (Inr [], w_trades\<lparr>console := console w_trades @
                  [[Str ''get_recent_politician_trades error:'', Exc err_trades]]\<rparr>))
   \<and> (\<exists>v w'. get_stock_price e tkr w = (Inr v, w'))
   \<and> (\<exists>v w'. get_recent_13f_filings e count w = (Inr v, w'))
   \<and> (\<exists>v w'. get_google_news_rss e query max_items w = (Inr v, w'))
   \<and> (\<exists>v w'. get_recent_politician_trades e count w = (Inr v, w'))
   \<and> (\<exists>sc w'. run_and_notify e tkr w = (Inr \<lparr>result_ticker = tkr, result_score = sc\<rparr>, w'))"
proof (intro conjI impI)
  assume "get_stock_price_body e tkr w = (Inl err_price, w_price)"
  then show "get_stock_price e tkr w =
      (Inr None,
       w_price\<lparr>console := console w_price @ [[Str ''get_stock_price error:'', Exc err_price]]\<rparr>)"
    unfolding get_stock_price_def try_except_default by simp
next
  assume "get_recent_13f_filings_body e count w = (Inl err_filings, w_filings)"
  then show "get_recent_13f_filings e count w =
      (Inr [], w_filings\<lparr>console := console w_filings @
                [[Str ''get_recent_13f_filings error:'', Exc err_filings]]\<rparr>)"
    unfolding get_recent_13f_filings_def try_except_default by simp
next
  assume "get_google_news_rss_body e query max_items w = (Inl err_news, w_news)"
  then show "get_google_news_rss e query max_items w =
      (Inr [], w_news\<lparr>console := console w_news @
                [[Str ''get_google_news_rss error:'', Exc err_news]]\<rparr>)"
    unfolding get_google_news_rss_def try_except_default by simp
next
  assume "get_recent_politician_trades_body e count w = (Inl err_trades, w_trades)"
  then show "get_recent_politician_trades e count w =
      (Inr [], w_trades\<lparr>console := console w_trades @
                [[Str ''get_recent_politician_trades error:'', Exc err_trades]]\<rparr>)"
    unfolding get_recent_politician_trades_def try_except_default by simp
qed (rule get_stock_price_returns get_recent_13f_filings_returns get_google_news_rss_returns
       get_recent_politician_trades_returns run_and_notify_returns)+

lemma env_all_raise_bodies:
  "get_stock_price_body env_all_raise ''msft'' empty_world = (Inl ZeroDivisionError, empty_world)"
  "get_recent_13f_filings_body env_all_raise 10 empty_world = (Inl (KeyError ''href''), empty_world)"
  "get_google_news_rss_body env_all_raise ''msft'' 5 empty_world =
     (Inl (AttributeError ''title''), empty_world)"
  "get_recent_politician_trades_body env_all_raise 10 empty_world =
     (Inl (KeyError ''href''), empty_world)"
  by code_simp+

theorem fetchers_fail_soft_witness:
  "get_stock_price env_all_raise ''msft'' empty_world =
     (Inr None, \<lparr>console = [[Str ''get_stock_price error:'', Exc ZeroDivisionError]], outbox = []\<rparr>)
   \<and> get_recent_13f_filings env_all_raise 10 empty_world =
     (Inr [], \<lparr>console = [[Str ''get_recent_13f_filings error:'', Exc (KeyError ''href'')]],
               outbox = []\<rparr>)
   \<and> get_google_news_rss env_all_raise ''msft'' 5 empty_world =
     (Inr [], \<lparr>console = [[Str ''get_google_news_rss error:'', Exc (AttributeError ''title'')]],
               outbox = []\<rparr>)
   \<and> get_recent_politician_trades env_all_raise 10 empty_world =
     (Inr [], \<lparr>console = [[Str ''get_recent_politician_trades error:'', Exc (KeyError ''href'')]],
               outbox = []\<rparr>)
   \<and> (\<exists>sc w'. run_and_notify env_all_raise ''msft'' empty_world =
                 (Inr \<lparr>result_ticker = ''msft'', result_score = sc\<rparr>, w'))"
  using fetchers_fail_soft
          [where e = env_all_raise and tkr = "''msft''" and query = "''msft''" and count = 10
             and max_items = 5 and w = empty_world
             and err_price = ZeroDivisionError and err_filings = "KeyError ''href''"
             and err_news = "AttributeError ''title''" and err_trades = "KeyError ''href''"
             and w_price = empty_world and w_filings = empty_world and w_news = empty_world
             and w_trades = empty_world]
        env_all_raise_bodies
  by (simp add: empty_world_def)

end
